theory Spec2Isabelle
  imports Main "HOL-Library.Word"
begin

section \<open>JavaScript values used by ContextMenuService.js\<close>

text \<open>
  A JavaScript string is a sequence of UTF-16 code units, so \<open>.length\<close> and
  \<open>.substr\<close> count 16-bit words. ASCII literals of the source are embedded with \<open>js\<close>.
  A string is truthy exactly when it is not empty.
\<close>

type_synonym jsstring = "16 word list"

definition js :: "string \<Rightarrow> jsstring" where
  "js s = map of_char s"

definition truthy :: "jsstring \<Rightarrow> bool" where
  "truthy s = (s \<noteq> [])"

text \<open>\<open>a || b\<close> on strings: the left operand when it is truthy, else the right one.\<close>

definition js_or :: "jsstring \<Rightarrow> jsstring \<Rightarrow> jsstring" where
  "js_or a b = (if truthy a then a else b)"

text \<open>
  A webContents object is named by its \<open>id\<close> (Electron gives every webContents an id of
  its own), so \<open>contents.id\<close> is the handle itself.
\<close>

type_synonym web_contents = nat

record browser_window =
  bw_webContents :: web_contents
  bw_ownerId :: jsstring

record wavebox_window =
  rootWebContentsHasContextMenu :: bool
  rootWebContentsId :: nat

text \<open>The parameters of Electron's context-menu event, as far as the file reads them.
  \<open>editable\<close> is the property of that name, \<open>None\<close> when the object has none.\<close>

record edit_flags =
  canUndo :: bool
  canRedo :: bool
  canCut :: bool
  canCopy :: bool
  canPaste :: bool
  canSelectAll :: bool

record params =
  linkURL :: jsstring
  selectionText :: jsstring
  isEditable :: bool
  misspelledWord :: jsstring
  editFlags :: edit_flags
  mediaType :: jsstring
  srcURL :: jsstring
  pageURL :: jsstring
  frameURL :: jsstring
  param_x :: int
  param_y :: int
  editable :: "bool option"

text \<open>An instance of CRExtensionRTContextMenu (the class is imported, not defined here):
  the properties the file reads.\<close>

record crx_menu =
  cm_id :: jsstring
  cm_parentId :: "jsstring option"
  cm_type :: jsstring
  cm_title :: jsstring
  cm_enabled :: bool
  cm_checked :: bool
  cm_contexts :: "jsstring list"

text \<open>The constant tables \<open>CRExtensionRTContextMenu.CONTEXT_TYPES\<close> and
  \<open>ITEM_TYPES\<close> are imported; they are parameters of the model.\<close>

record context_types =
  CT_ALL :: jsstring
  CT_PAGE :: jsstring
  CT_EDITABLE :: jsstring

record item_types =
  IT_NORMAL :: jsstring
  IT_CHECKBOX :: jsstring
  IT_RADIO :: jsstring
  IT_SEPERATOR :: jsstring

section \<open>Menu templates\<close>

text \<open>
  A click handler of the source is a closure: one constructor per arrow function, holding
  the variables it captures.
\<close>

datatype click =
    OpenLinkInBrowser jsstring
  | OpenLinkWithWavebox web_contents jsstring
  | OpenLinkInBackground jsstring
  | CopyLinkAddress jsstring
  | AddToDictionary jsstring
  | SearchGoogle jsstring
  | OpenImageInBrowser jsstring
  | SaveImageAs web_contents jsstring
  | CopyImageAddress jsstring
  | GoBack web_contents
  | GoForward web_contents
  | Reload web_contents
  | CopyCurrentURL jsstring
  | OpenPageInBrowser jsstring
  | OpenPageWithWavebox web_contents jsstring
  | WaveboxSettings web_contents
  | ChangeDictionary jsstring
  | Inspect web_contents int int
  | ReplaceMisspelling web_contents jsstring
  | ExtensionOptionSelected web_contents jsstring crx_menu params

datatype native_image = CreateFromPath "jsstring option"

text \<open>An entry of a menu template: every property is optional; an entry of a submenu can
  be \<open>undefined\<close> (\<open>None\<close>).\<close>

datatype menu_item = MenuItem
  (label: "jsstring option")
  (role: "jsstring option")
  (item_type: "jsstring option")
  (enabled: "bool option")
  (checked: "bool option")
  (icon: "native_image option")
  (submenu: "menu_item option list option")
  (click: "click option")

definition separator :: menu_item where
  "separator = MenuItem None None (Some (js ''separator'')) None None None None None"

definition is_separator :: "menu_item \<Rightarrow> bool" where
  "is_separator m = (item_type m = Some (js ''separator''))"

section \<open>convertSectionsToTemplate\<close>

text \<open>\<open>xs.slice(0, -1)\<close>: all but the last element, and the empty list stays empty.\<close>

definition slice_0_neg1 :: "'a list \<Rightarrow> 'a list" where
  "slice_0_neg1 xs = take (length xs - 1) xs"

text \<open>A section is an array of entries or \<open>undefined\<close>; the reduce keeps a section when
  \<open>section && section.length\<close> is truthy.\<close>

definition convertSectionsToTemplate :: "menu_item list option list \<Rightarrow> menu_item list" where
  "convertSectionsToTemplate sections =
     slice_0_neg1
       (foldl (\<lambda>acc section.
                 case section of
                   None \<Rightarrow> acc
                 | Some entries \<Rightarrow>
                     if length entries \<noteq> 0 then acc @ entries @ [separator] else acc)
              [] sections)"

text \<open>The words of the specification: the sections that produce entries, and their join
  with one separator between neighbours.\<close>

fun nonempty_sections :: "menu_item list option list \<Rightarrow> menu_item list list" where
  "nonempty_sections [] = []"
| "nonempty_sections (None # ss) = nonempty_sections ss"
| "nonempty_sections (Some entries # ss) =
     (if entries = [] then nonempty_sections ss else entries # nonempty_sections ss)"

fun joined_by_separator :: "menu_item list list \<Rightarrow> menu_item list" where
  "joined_by_separator [] = []"
| "joined_by_separator [s] = s"
| "joined_by_separator (s # t # ss) = s @ [separator] @ joined_by_separator (t # ss)"

definition count_separators :: "menu_item list \<Rightarrow> nat" where
  "count_separators t = length (filter is_separator t)"

section \<open>The collaborators of the service\<close>

text \<open>
  The spellchecker service, the window classes, the extension runtime and Electron are
  imported by the file. What they answer at the moment of a call is a parameter of the
  model. \<open>spellSuggestionsSync\<close> answers an object whose \<open>primary\<close> and
  \<open>secondary\<close> are each absent or hold a language and a list of suggestions.
\<close>

record sugg =
  language :: jsstring
  suggestions :: "jsstring list"

record spell_suggestions =
  primary :: "sugg option"
  secondary :: "sugg option"

text \<open>One value of the object \<open>getRuntimeContextMenuData()\<close> returns: the context menus
  are pairs of a menu id and the menu's data before the file replaces them by
  CRExtensionRTContextMenu instances, and those instances afterwards.\<close>

record 'm extension_rt =
  ext_name :: jsstring
  ext_icons :: "jsstring \<Rightarrow> jsstring option"
  ext_contextMenus :: "'m list"

record windows =
  rootWebContents :: "web_contents \<Rightarrow> web_contents option"
  fromWebContents :: "web_contents \<Rightarrow> browser_window option"
  fromBrowserWindow :: "browser_window \<Rightarrow> wavebox_window option"
  fromTabId :: "nat \<Rightarrow> wavebox_window option"
  mailboxesWindowOpen :: bool

record 'd world =
  windows :: windows
  platform :: jsstring
  isDestroyed :: "web_contents \<Rightarrow> bool"
  canGoBack :: "web_contents \<Rightarrow> bool"
  canGoForward :: "web_contents \<Rightarrow> bool"
  webPreferencesPartition :: "web_contents \<Rightarrow> jsstring"
  spellSuggestionsSync :: "jsstring \<Rightarrow> spell_suggestions"
  getHumanizedLanguageName :: "jsstring \<Rightarrow> jsstring"
  getInstalledDictionaries :: "jsstring list"
  primaryLanguage :: jsstring
  getRuntimeContextMenuData :: "(jsstring \<times> (jsstring \<times> 'd) extension_rt) list"
  new_CRExtensionRTContextMenu :: "jsstring \<Rightarrow> jsstring \<Rightarrow> 'd \<Rightarrow> crx_menu"
  CONTEXT_TYPES :: context_types
  ITEM_TYPES :: item_types

section \<open>The section builders\<close>

text \<open>The arguments of \<open>MenuItem\<close> are, in this order: label, role, type, enabled, checked,
  icon, submenu, click.\<close>

definition renderURLSection :: "'d world \<Rightarrow> web_contents \<Rightarrow> params \<Rightarrow> menu_item list" where
  "renderURLSection w contents params =
     (if truthy (linkURL params) then
        [MenuItem (Some (js ''Open Link in Browser'')) None None None None None None
           (Some (OpenLinkInBrowser (linkURL params))),
         MenuItem (Some (js ''Open Link with Wavebox'')) None None None None None None
           (Some (OpenLinkWithWavebox contents (linkURL params)))]
        @ (if platform w = js ''darwin'' then
             [MenuItem (Some (js ''Open Link in Background'')) None None None None None None
                (Some (OpenLinkInBackground (linkURL params)))]
           else [])
        @ [MenuItem (Some (js ''Copy link Address'')) None None None None None None
             (Some (CopyLinkAddress (linkURL params)))]
      else [])"

text \<open>The typographic quotes and the ellipsis of the labels, as code units.\<close>

definition ldquo :: "16 word" where "ldquo = 0x201C"
definition rdquo :: "16 word" where "rdquo = 0x201D"
definition hellip :: "16 word" where "hellip = 0x2026"

definition renderLookupAndSearchSection ::
  "'d world \<Rightarrow> web_contents \<Rightarrow> params \<Rightarrow> menu_item list" where
  "renderLookupAndSearchSection w contents params =
     (if truthy (selectionText params) then
        (if isEditable params \<and> truthy (misspelledWord params) then
           [MenuItem
              (Some (js ''Add '' @ [ldquo] @ misspelledWord params @ [rdquo]
                     @ js '' to Dictionary''))
              None None None None None None
              (Some (AddToDictionary (misspelledWord params)))]
         else [])
        @ (let displayText =
                 (if length (selectionText params) \<ge> 50
                  then take 47 (selectionText params) @ [hellip]
                  else selectionText params)
           in [MenuItem (Some (js ''Search Google for '' @ [ldquo] @ displayText @ [rdquo]))
                 None None None None None None
                 (Some (SearchGoogle (selectionText params)))])
      else [])"

definition renderRewindSection :: "'d world \<Rightarrow> web_contents \<Rightarrow> params \<Rightarrow> menu_item list" where
  "renderRewindSection w contents params =
     (if canUndo (editFlags params) \<or> canRedo (editFlags params) then
        [MenuItem (Some (js ''Undo'')) (Some (js ''undo'')) None
           (Some (canUndo (editFlags params))) None None None None,
         MenuItem (Some (js ''Redo'')) (Some (js ''redo'')) None
           (Some (canRedo (editFlags params))) None None None None]
      else [])"

definition renderEditingSection :: "'d world \<Rightarrow> web_contents \<Rightarrow> params \<Rightarrow> menu_item list" where
  "renderEditingSection w contents params =
     (if mediaType params = js ''image'' then
        [MenuItem (Some (js ''Open Image in Browser'')) None None None None None None
           (Some (OpenImageInBrowser (srcURL params))),
         MenuItem (Some (js ''Save Image As'' @ [hellip])) None None None None None None
           (Some (SaveImageAs contents (srcURL params))),
         MenuItem (Some (js ''Copy Image Address'')) None None None None None None
           (Some (CopyImageAddress (srcURL params)))]
      else
        (if canCut (editFlags params)
         then [MenuItem (Some (js ''Cut'')) (Some (js ''cut'')) None None None None None None]
         else [])
        @ (if canCopy (editFlags params)
           then [MenuItem (Some (js ''Copy'')) (Some (js ''copy'')) None None None None None None]
           else [])
        @ (if canPaste (editFlags params)
           then [MenuItem (Some (js ''Paste'')) (Some (js ''paste'')) None None None None None None]
           else [])
        @ (if canPaste (editFlags params)
           then [MenuItem (Some (js ''Paste and match style'')) (Some (js ''pasteandmatchstyle''))
                   None None None None None None]
           else [])
        @ (if canSelectAll (editFlags params)
           then [MenuItem (Some (js ''Select all'')) (Some (js ''selectall''))
                   None None None None None None]
           else []))"

definition renderPageNavigationSection ::
  "'d world \<Rightarrow> web_contents \<Rightarrow> params \<Rightarrow> menu_item list" where
  "renderPageNavigationSection w contents params =
     [MenuItem (Some (js ''Go Back'')) None None (Some (canGoBack w contents)) None None None
        (Some (GoBack contents)),
      MenuItem (Some (js ''Go Forward'')) None None (Some (canGoForward w contents)) None None None
        (Some (GoForward contents)),
      MenuItem (Some (js ''Reload'')) None None None None None None
        (Some (Reload contents))]"

definition renderPageExternalSection ::
  "'d world \<Rightarrow> web_contents \<Rightarrow> params \<Rightarrow> menu_item list" where
  "renderPageExternalSection w contents params =
     [MenuItem (Some (js ''Copy current URL'')) None None None None None None
        (Some (CopyCurrentURL (pageURL params))),
      MenuItem (Some (js ''Open page in Browser'')) None None None None None None
        (Some (OpenPageInBrowser (pageURL params))),
      MenuItem (Some (js ''Open page with Wavebox'')) None None None None None None
        (Some (OpenPageWithWavebox contents (pageURL params)))]"

definition renderWaveboxSection :: "'d world \<Rightarrow> web_contents \<Rightarrow> params \<Rightarrow> menu_item list" where
  "renderWaveboxSection w contents params =
     [MenuItem (Some (js ''Wavebox Settings'')) None None None None None None
        (Some (WaveboxSettings contents))]
     @ (let installedDictionaries = getInstalledDictionaries w in
        if length installedDictionaries > 1 then
          (let currentLanguage = primaryLanguage w in
           [MenuItem (Some (js ''Change Dictionary'')) None None None None None
              (Some (map (\<lambda>lang.
                            Some (MenuItem (Some (getHumanizedLanguageName w lang)) None
                                    (Some (js ''radio'')) None (Some (lang = currentLanguage))
                                    None None (Some (ChangeDictionary lang))))
                         installedDictionaries))
              None])
        else [])
     @ [MenuItem (Some (js ''Inspect'')) None None None None None None
          (Some (Inspect contents (param_x params) (param_y params)))]"

subsection \<open>Spelling\<close>

definition renderSpellingSuggestionMenuItems ::
  "web_contents \<Rightarrow> jsstring list \<Rightarrow> menu_item list" where
  "renderSpellingSuggestionMenuItems contents suggs =
     (if length suggs \<noteq> 0 then
        map (\<lambda>suggestion.
               MenuItem (Some suggestion) None None None None None None
                 (Some (ReplaceMisspelling contents suggestion)))
            suggs
      else
        [MenuItem (Some (js ''No Spelling Suggestions'')) None None (Some False)
           None None None None])"

definition renderSpellingSection :: "'d world \<Rightarrow> web_contents \<Rightarrow> params \<Rightarrow> menu_item list" where
  "renderSpellingSection w contents params =
     (if isEditable params \<and> truthy (misspelledWord params) then
        (let sgs = spellSuggestionsSync w (misspelledWord params) in
         case (primary sgs, secondary sgs) of
           (Some p, Some s) \<Rightarrow>
             [MenuItem (Some (getHumanizedLanguageName w (language p))) None None None None None
                (Some (map Some (renderSpellingSuggestionMenuItems contents (suggestions p))))
                None,
              MenuItem (Some (getHumanizedLanguageName w (language s))) None None None None None
                (Some (map Some (renderSpellingSuggestionMenuItems contents (suggestions s))))
                None]
         | _ \<Rightarrow>
             (let suggList =
                    (case primary sgs of
                       Some p \<Rightarrow> suggestions p
                     | None \<Rightarrow>
                         (case secondary sgs of
                            Some s \<Rightarrow> suggestions s
                          | None \<Rightarrow> []))
              in renderSpellingSuggestionMenuItems contents suggList))
      else [])"

subsection \<open>Extensions\<close>

definition renderExtensionMenuItem ::
  "'d world \<Rightarrow> web_contents \<Rightarrow> params \<Rightarrow> jsstring \<Rightarrow> crx_menu \<Rightarrow> menu_item option" where
  "renderExtensionMenuItem w contents params extensionId menuItem =
     (if cm_type menuItem = IT_NORMAL (ITEM_TYPES w) then
        Some (MenuItem (Some (cm_title menuItem)) None None (Some (cm_enabled menuItem))
                None None None
                (Some (ExtensionOptionSelected contents extensionId menuItem params)))
      else if cm_type menuItem = IT_CHECKBOX (ITEM_TYPES w) then
        Some (MenuItem (Some (cm_title menuItem)) None (Some (js ''checkbox'')) None
                (Some (cm_checked menuItem)) None None
                (Some (ExtensionOptionSelected contents extensionId menuItem params)))
      else if cm_type menuItem = IT_RADIO (ITEM_TYPES w) then
        Some (MenuItem (Some (cm_title menuItem)) None (Some (js ''radio'')) None
                (Some (cm_checked menuItem)) None None
                (Some (ExtensionOptionSelected contents extensionId menuItem params)))
      else if cm_type menuItem = IT_SEPERATOR (ITEM_TYPES w) then
        Some (MenuItem None None (Some (js ''separator'')) None None None None None)
      else None)"

text \<open>The callback of \<open>contextMenus.filter\<close>. The argument of the first \<open>has\<close> is the
  value of \<open>CONTEXT_TYPES.ALL || CONTEXT_TYPES.PAGE\<close>; the callback returns
  \<open>undefined\<close>, which is falsy, when neither branch returns.\<close>

definition validContextMenu :: "context_types \<Rightarrow> params \<Rightarrow> crx_menu \<Rightarrow> bool" where
  "validContextMenu ct params menu =
     (let contexts = set (cm_contexts menu) in
      if js_or (CT_ALL ct) (CT_PAGE ct) \<in> contexts then True
      else if isEditable params \<and> CT_EDITABLE ct \<in> contexts then True
      else False)"

text \<open>\<open>Object.assign({ icon: i }, item)\<close>: the properties of the rendered item over an
  object that holds the icon; an undefined item adds nothing.\<close>

fun assign_icon :: "native_image \<Rightarrow> menu_item option \<Rightarrow> menu_item" where
  "assign_icon i None = MenuItem None None None None None (Some i) None None"
| "assign_icon i (Some (MenuItem l r t e c ic sm cl)) =
     MenuItem l r t e c (case ic of None \<Rightarrow> Some i | Some own \<Rightarrow> Some own) sm cl"

text \<open>The first pass over the runtime's data: every pair of a menu id and its data becomes
  a CRExtensionRTContextMenu.\<close>

definition mungeExtensionContextMenus ::
  "'d world \<Rightarrow> (jsstring \<times> crx_menu extension_rt) list" where
  "mungeExtensionContextMenus w =
     map (\<lambda>(extensionId, ext).
            (extensionId,
             \<lparr> ext_name = ext_name ext, ext_icons = ext_icons ext,
               ext_contextMenus =
                 map (\<lambda>(menuId, menuData). new_CRExtensionRTContextMenu w extensionId menuId menuData)
                     (ext_contextMenus ext) \<rparr>))
         (getRuntimeContextMenuData w)"

text \<open>The body of the second \<open>forEach\<close>: what one extension pushes onto the template.\<close>

definition pushExtension ::
  "'d world \<Rightarrow> web_contents \<Rightarrow> params \<Rightarrow> menu_item list \<Rightarrow> jsstring \<times> crx_menu extension_rt
     \<Rightarrow> menu_item list" where
  "pushExtension w contents params template entry =
     (let extensionId = fst entry;
          name = ext_name (snd entry);
          icons = ext_icons (snd entry);
          contextMenus = ext_contextMenus (snd entry);
          validContextMenus = filter (validContextMenu (CONTEXT_TYPES w) params) contextMenus
      in
        if length validContextMenus = 1 then
          template @
            [assign_icon (CreateFromPath (icons (js ''16'')))
               (renderExtensionMenuItem w contents params extensionId (hd validContextMenus))]
        else if length validContextMenus > 1 then
          template @
            [MenuItem (Some name) None None None None
               (Some (CreateFromPath (icons (js ''16''))))
               (Some (map (\<lambda>menuItem. renderExtensionMenuItem w contents params extensionId menuItem)
                          validContextMenus))
               None]
        else template)"

definition renderExtensionSection :: "'d world \<Rightarrow> web_contents \<Rightarrow> params \<Rightarrow> menu_item list" where
  "renderExtensionSection w contents params =
     (case fromTabId (windows w) contents of
        None \<Rightarrow> []
      | Some waveboxWindow \<Rightarrow>
          foldl (pushExtension w contents params) [] (mungeExtensionContextMenus w))"

section \<open>Effects\<close>

text \<open>The payload \<open>clickParams\<close> handed to the extension runtime. \<open>wasChecked\<close> and
  \<open>cp_checked\<close> are \<open>None\<close> when the object has no such property.\<close>

record click_params =
  menuItemId :: jsstring
  parentMenuItemId :: "jsstring option"
  cp_mediaType :: "jsstring option"
  linkUrl :: jsstring
  srcUrl :: jsstring
  pageUrl :: jsstring
  frameUrl :: jsstring
  cp_selectionText :: jsstring
  cp_editable :: "bool option"
  wasChecked :: "bool option"
  cp_checked :: "bool option"

text \<open>
  The calls the service makes on its collaborators, in the order it makes them. A menu
  built by \<open>Menu.buildFromTemplate\<close> is named by its template. \<open>SetTimeout t ms\<close> is
  \<open>setTimeout(() => { MenuTool.fullDestroyMenu(menu) }, ms)\<close> for the menu of template
  \<open>t\<close>. \<open>ShellOpenGoogleSearch text\<close> opens \<open>https://google.com/search?q=\<close> followed by
  \<open>encodeURIComponent(text)\<close>.
\<close>

datatype effect =
    ShellOpenExternal jsstring "bool option"
  | ShellOpenGoogleSearch jsstring
  | ClipboardWriteText jsstring
  | DownloadURL web_contents jsstring
  | ContentsGoBack web_contents
  | ContentsGoForward web_contents
  | ContentsReload web_contents
  | InspectElement web_contents int int
  | ContentsReplaceMisspelling web_contents jsstring
  | AddUserWord jsstring
  | ChangePrimarySpellcheckLanguage jsstring
  | ShowFocusLaunchPreferences
  | ContentWindowCreate jsstring browser_window jsstring jsstring
  | ContextMenuItemSelected jsstring web_contents click_params
  | MenuBuildFromTemplate "menu_item list"
  | MenuPopup "menu_item list" browser_window
  | SetTimeout "menu_item list" nat

datatype js_error = TypeError | URIError

section \<open>UI events\<close>

text \<open>\<open>openerWindow.ownerId\<close> raises a TypeError when no opener window was found.\<close>

definition openLinkInWaveboxWindow ::
  "'d world \<Rightarrow> web_contents \<Rightarrow> jsstring \<Rightarrow> js_error + effect list" where
  "openLinkInWaveboxWindow w contents url =
     (let rootContents = rootWebContents (windows w) contents;
          openerWindow = (case rootContents of
                            Some r \<Rightarrow> fromWebContents (windows w) r
                          | None \<Rightarrow> None);
          partition = webPreferencesPartition w contents
      in case openerWindow of
           None \<Rightarrow> Inl TypeError
         | Some ow \<Rightarrow> Inr [ContentWindowCreate (bw_ownerId ow) ow url partition])"

definition openWaveboxSettings :: "'d world \<Rightarrow> web_contents \<Rightarrow> effect list" where
  "openWaveboxSettings w contents =
     (if mailboxesWindowOpen (windows w) then [ShowFocusLaunchPreferences] else [])"

definition clickParams :: "item_types \<Rightarrow> crx_menu \<Rightarrow> params \<Rightarrow> click_params" where
  "clickParams it menuItem params =
     (let withChecked = (cm_type menuItem = IT_CHECKBOX it \<or> cm_type menuItem = IT_RADIO it) in
      \<lparr> menuItemId = cm_id menuItem,
        parentMenuItemId = cm_parentId menuItem,
        cp_mediaType = (if mediaType params = js ''none'' then None else Some (mediaType params)),
        linkUrl = linkURL params,
        srcUrl = srcURL params,
        pageUrl = pageURL params,
        frameUrl = frameURL params,
        cp_selectionText = selectionText params,
        cp_editable = editable params,
        wasChecked = (if withChecked then Some (cm_checked menuItem) else None),
        cp_checked = (if withChecked then Some (\<not> cm_checked menuItem) else None) \<rparr>)"

definition extensionOptionSelected ::
  "'d world \<Rightarrow> web_contents \<Rightarrow> jsstring \<Rightarrow> crx_menu \<Rightarrow> params \<Rightarrow> effect list" where
  "extensionOptionSelected w contents extensionId menuItem params =
     (if isDestroyed w contents then []
      else [ContextMenuItemSelected extensionId contents
              (clickParams (ITEM_TYPES w) menuItem params)])"

text \<open>\<open>encodeURIComponent\<close> raises a URIError on a surrogate code unit that has no partner.\<close>

definition is_high_surrogate :: "16 word \<Rightarrow> bool" where
  "is_high_surrogate c = (0xD800 \<le> c \<and> c \<le> 0xDBFF)"

definition is_low_surrogate :: "16 word \<Rightarrow> bool" where
  "is_low_surrogate c = (0xDC00 \<le> c \<and> c \<le> 0xDFFF)"

fun well_formed_utf16 :: "jsstring \<Rightarrow> bool" where
  "well_formed_utf16 [] = True"
| "well_formed_utf16 [c] = (\<not> is_high_surrogate c \<and> \<not> is_low_surrogate c)"
| "well_formed_utf16 (c # d # ds) =
     (if is_high_surrogate c then is_low_surrogate d \<and> well_formed_utf16 ds
      else \<not> is_low_surrogate c \<and> well_formed_utf16 (d # ds))"

text \<open>Running a click handler in the world of the moment of the click: the calls it makes,
  or the error it raises.\<close>

fun run_click :: "'d world \<Rightarrow> click \<Rightarrow> js_error + effect list" where
  "run_click w (OpenLinkInBrowser url) = Inr [ShellOpenExternal url None]"
| "run_click w (OpenLinkWithWavebox contents url) = openLinkInWaveboxWindow w contents url"
| "run_click w (OpenLinkInBackground url) = Inr [ShellOpenExternal url (Some False)]"
| "run_click w (CopyLinkAddress url) = Inr [ClipboardWriteText url]"
| "run_click w (AddToDictionary word) = Inr [AddUserWord word]"
| "run_click w (SearchGoogle text) =
     (if well_formed_utf16 text then Inr [ShellOpenGoogleSearch text] else Inl URIError)"
| "run_click w (OpenImageInBrowser url) = Inr [ShellOpenExternal url None]"
| "run_click w (SaveImageAs contents url) = Inr [DownloadURL contents url]"
| "run_click w (CopyImageAddress url) = Inr [ClipboardWriteText url]"
| "run_click w (GoBack contents) = Inr [ContentsGoBack contents]"
| "run_click w (GoForward contents) = Inr [ContentsGoForward contents]"
| "run_click w (Reload contents) = Inr [ContentsReload contents]"
| "run_click w (CopyCurrentURL url) = Inr [ClipboardWriteText url]"
| "run_click w (OpenPageInBrowser url) = Inr [ShellOpenExternal url None]"
| "run_click w (OpenPageWithWavebox contents url) = openLinkInWaveboxWindow w contents url"
| "run_click w (WaveboxSettings contents) = Inr (openWaveboxSettings w contents)"
| "run_click w (ChangeDictionary lang) =
     Inr (if mailboxesWindowOpen (windows w) then [ChangePrimarySpellcheckLanguage lang] else [])"
| "run_click w (Inspect contents x y) = Inr [InspectElement contents x y]"
| "run_click w (ReplaceMisspelling contents suggestion) =
     Inr [ContentsReplaceMisspelling contents suggestion]"
| "run_click w (ExtensionOptionSelected contents extensionId menuItem params) =
     Inr (extensionOptionSelected w contents extensionId menuItem params)"

section \<open>launchMenu\<close>

definition sections_of :: "'d world \<Rightarrow> web_contents \<Rightarrow> params \<Rightarrow> menu_item list option list" where
  "sections_of w contents params =
     [Some (renderSpellingSection w contents params),
      Some (renderURLSection w contents params),
      Some (renderLookupAndSearchSection w contents params),
      Some (renderRewindSection w contents params),
      Some (renderEditingSection w contents params),
      Some (renderPageNavigationSection w contents params),
      Some (renderPageExternalSection w contents params),
      Some (renderExtensionSection w contents params),
      Some (renderWaveboxSection w contents params)]"

text \<open>\<open>sender\<close> is \<open>evt.sender\<close>. The result lists the calls on Electron's menu and timer
  interfaces; both early returns make none.\<close>

definition launchMenu :: "'d world \<Rightarrow> web_contents \<Rightarrow> params \<Rightarrow> effect list" where
  "launchMenu w sender params =
     (let contents = sender in
      case rootWebContents (windows w) contents of
        None \<Rightarrow> []
      | Some rootContents \<Rightarrow>
          (case fromWebContents (windows w) rootContents of
             None \<Rightarrow> []
           | Some browserWindow \<Rightarrow>
               (let sections = sections_of w contents params;
                    menu = convertSectionsToTemplate sections
                in [MenuBuildFromTemplate menu, MenuPopup menu browserWindow,
                    SetTimeout menu 100])))"

section \<open>Menus and timers at run time\<close>

text \<open>
  What Electron and the event loop hold after the calls of the service: the timers set by
  \<open>setTimeout\<close> (milliseconds left, and the menu the callback destroys), the menus
  popped up and the menus \<open>MenuTool.fullDestroyMenu\<close> has run on. The file never calls
  \<open>clearTimeout\<close>. A callback runs once its delay has elapsed.
\<close>

record menu_runtime =
  timers :: "(nat \<times> menu_item list) list"
  shownMenus :: "menu_item list list"
  destroyedMenus :: "menu_item list list"

definition apply_effect :: "menu_runtime \<Rightarrow> effect \<Rightarrow> menu_runtime" where
  "apply_effect rt e =
     (case e of
        SetTimeout menu ms \<Rightarrow> rt\<lparr>timers := timers rt @ [(ms, menu)]\<rparr>
      | MenuPopup menu bw \<Rightarrow> rt\<lparr>shownMenus := shownMenus rt @ [menu]\<rparr>
      | _ \<Rightarrow> rt)"

definition new_runtime :: menu_runtime where
  "new_runtime = \<lparr> timers = [], shownMenus = [], destroyedMenus = [] \<rparr>"

datatype 'd ui_event =
    ContextMenuEvent "'d world" web_contents params
  | ClickEvent "'d world" click
  | Elapse nat

fun ui_step :: "menu_runtime \<Rightarrow> 'd ui_event \<Rightarrow> menu_runtime" where
  "ui_step rt (ContextMenuEvent w sender params) =
     foldl apply_effect rt (launchMenu w sender params)"
| "ui_step rt (ClickEvent w c) =
     (case run_click w c of
        Inl err \<Rightarrow> rt
      | Inr effects \<Rightarrow> foldl apply_effect rt effects)"
| "ui_step rt (Elapse ms) =
     rt\<lparr>timers := map (\<lambda>(r, menu). (r - ms, menu)) (filter (\<lambda>(r, menu). ms < r) (timers rt)),
        destroyedMenus := destroyedMenus rt
                          @ map snd (filter (\<lambda>(r, menu). r \<le> ms) (timers rt))\<rparr>"

definition ui_run :: "menu_runtime \<Rightarrow> 'd ui_event list \<Rightarrow> menu_runtime" where
  "ui_run rt evs = foldl ui_step rt evs"

fun elapsed :: "'d ui_event list \<Rightarrow> nat" where
  "elapsed [] = 0"
| "elapsed (Elapse ms # evs) = ms + elapsed evs"
| "elapsed (ev # evs) = elapsed evs"

section \<open>Binding the context menu to webContents\<close>

text \<open>
  The state of the service and of the webContents it has seen: the set \<open>privConnected\<close>,
  the number of \<open>context-menu\<close> and of \<open>destroyed\<close> listeners the service has attached
  to each webContents, the webContents that are destroyed, and the callbacks queued by
  \<open>setImmediate\<close>, oldest first.
\<close>

record service =
  privConnected :: "nat set"
  contextMenuListeners :: "web_contents \<Rightarrow> nat"
  destroyedListeners :: "web_contents \<Rightarrow> nat"
  destroyedContents :: "web_contents set"
  immediates :: "web_contents list"

definition new_service :: service where
  "new_service =
     \<lparr> privConnected = {}, contextMenuListeners = (\<lambda>c. 0), destroyedListeners = (\<lambda>c. 0),
       destroyedContents = {}, immediates = [] \<rparr>"

definition handleWebContentsCreated :: "service \<Rightarrow> web_contents \<Rightarrow> service" where
  "handleWebContentsCreated s contents = s\<lparr>immediates := immediates s @ [contents]\<rparr>"

definition handleBrowserWindowCreated :: "service \<Rightarrow> browser_window \<Rightarrow> service" where
  "handleBrowserWindowCreated s window = handleWebContentsCreated s (bw_webContents window)"

text \<open>The callback that \<open>_handleWebContentsCreated\<close> hands to \<open>setImmediate\<close>, run with
  the windows as they are at that moment.\<close>

definition bindContextMenu :: "windows \<Rightarrow> service \<Rightarrow> web_contents \<Rightarrow> service" where
  "bindContextMenu wins s contents =
     (if contents \<in> destroyedContents s then s
      else
        let webContentsId = contents in
        if webContentsId \<in> privConnected s then s
        else
          case rootWebContents wins contents of
            None \<Rightarrow> s
          | Some rootContents \<Rightarrow>
              (case fromWebContents wins rootContents of
                 None \<Rightarrow> s
               | Some browserWindow \<Rightarrow>
                   if (case fromBrowserWindow wins browserWindow of
                         Some waveboxWindow \<Rightarrow>
                           \<not> rootWebContentsHasContextMenu waveboxWindow
                           \<and> rootWebContentsId waveboxWindow = webContentsId
                       | None \<Rightarrow> False)
                   then s
                   else
                     s\<lparr>privConnected := insert webContentsId (privConnected s),
                       contextMenuListeners :=
                         (contextMenuListeners s)(contents := contextMenuListeners s contents + 1),
                       destroyedListeners :=
                         (destroyedListeners s)(contents := destroyedListeners s contents + 1)\<rparr>))"

text \<open>
  The events: the app announces a webContents or a browser window, the event loop runs the
  oldest queued callback, a webContents is destroyed and emits \<open>destroyed\<close> (each listener
  the service attached deletes the id from the set).
\<close>

datatype app_event =
    WebContentsCreated web_contents
  | BrowserWindowCreated browser_window
  | Immediate windows
  | Destroyed web_contents

fun app_step :: "service \<Rightarrow> app_event \<Rightarrow> service" where
  "app_step s (WebContentsCreated contents) = handleWebContentsCreated s contents"
| "app_step s (BrowserWindowCreated window) = handleBrowserWindowCreated s window"
| "app_step s (Immediate wins) =
     (case immediates s of
        [] \<Rightarrow> s
      | contents # rest \<Rightarrow> bindContextMenu wins (s\<lparr>immediates := rest\<rparr>) contents)"
| "app_step s (Destroyed contents) =
     s\<lparr>destroyedContents := insert contents (destroyedContents s),
       privConnected := (if destroyedListeners s contents > 0
                         then privConnected s - {contents}
                         else privConnected s)\<rparr>"

definition app_run :: "service \<Rightarrow> app_event list \<Rightarrow> service" where
  "app_run s evs = foldl app_step s evs"

section \<open>A world to run the service in\<close>

definition ex_windows :: windows where
  "ex_windows =
     \<lparr> rootWebContents = (\<lambda>c. if c = 7 \<or> c = 3 then Some 3 else if c = 8 then Some 4 else None),
       fromWebContents = (\<lambda>c. if c = 3
                                then Some \<lparr> bw_webContents = 3, bw_ownerId = js ''main'' \<rparr>
                                else None),
       fromBrowserWindow = (\<lambda>b. if bw_webContents b = 3
                                  then Some \<lparr> rootWebContentsHasContextMenu = False,
                                              rootWebContentsId = 3 \<rparr>
                                  else None),
       fromTabId = (\<lambda>c. if c = 7
                          then Some \<lparr> rootWebContentsHasContextMenu = False,
                                      rootWebContentsId = 3 \<rparr>
                          else None),
       mailboxesWindowOpen = True \<rparr>"

text \<open>Modelled from the spec: the values of the constant tables of
  CRExtensionRTContextMenu, which the file imports. The specification names the contexts
  all, page and editable and the item types normal, checkbox, radio and separator.\<close>

definition std_context_types :: context_types where
  "std_context_types = \<lparr> CT_ALL = js ''all'', CT_PAGE = js ''page'', CT_EDITABLE = js ''editable'' \<rparr>"

definition std_item_types :: item_types where
  "std_item_types =
     \<lparr> IT_NORMAL = js ''normal'', IT_CHECKBOX = js ''checkbox'', IT_RADIO = js ''radio'',
       IT_SEPERATOR = js ''separator'' \<rparr>"

definition ex_menu :: "jsstring \<Rightarrow> jsstring \<Rightarrow> jsstring list \<Rightarrow> crx_menu" where
  "ex_menu menuId type ctxs =
     \<lparr> cm_id = menuId, cm_parentId = None, cm_type = type, cm_title = js ''Item '' @ menuId,
       cm_enabled = True, cm_checked = False, cm_contexts = ctxs \<rparr>"

text \<open>Two extensions: \<open>solo\<close> declares one menu for all contexts and one for editable
  fields, \<open>duo\<close> two menus for all contexts. The menu data are already in the shape of a
  CRExtensionRTContextMenu, and the constructor keeps them.\<close>

definition ex_world :: "crx_menu world" where
  "ex_world =
     \<lparr> windows = ex_windows,
       platform = js ''linux'',
       isDestroyed = (\<lambda>c. c = 9),
       canGoBack = (\<lambda>c. False),
       canGoForward = (\<lambda>c. False),
       webPreferencesPartition = (\<lambda>c. js ''persist:x''),
       spellSuggestionsSync = (\<lambda>word. \<lparr> primary = None, secondary = None \<rparr>),
       getHumanizedLanguageName = (\<lambda>lang. lang),
       getInstalledDictionaries = [js ''en_US''],
       primaryLanguage = js ''en_US'',
       getRuntimeContextMenuData =
         [(js ''solo'',
           \<lparr> ext_name = js ''Solo'', ext_icons = (\<lambda>k. None),
             ext_contextMenus =
               [(js ''a'', ex_menu (js ''a'') (js ''normal'') [js ''all'']),
                (js ''b'', ex_menu (js ''b'') (js ''checkbox'') [js ''editable''])] \<rparr>),
          (js ''duo'',
           \<lparr> ext_name = js ''Duo'', ext_icons = (\<lambda>k. None),
             ext_contextMenus =
               [(js ''c'', ex_menu (js ''c'') (js ''normal'') [js ''all'']),
                (js ''d'', ex_menu (js ''d'') (js ''radio'') [js ''all'', js ''page''])] \<rparr>)],
       new_CRExtensionRTContextMenu = (\<lambda>extensionId menuId menuData. menuData),
       CONTEXT_TYPES = std_context_types,
       ITEM_TYPES = std_item_types \<rparr>"

definition ex_params :: params where
  "ex_params =
     \<lparr> linkURL = [], selectionText = [], isEditable = False, misspelledWord = [],
       editFlags = \<lparr> canUndo = False, canRedo = False, canCut = False, canCopy = False,
                     canPaste = False, canSelectAll = False \<rparr>,
       mediaType = js ''none'', srcURL = [], pageURL = js ''https://wavebox.io/'',
       frameURL = [], param_x = 10, param_y = 20, editable = None \<rparr>"

text \<open>A click on a misspelled, selected word inside a link in an editable field: every
  section builder produces entries.\<close>

definition ex_params_full :: params where
  "ex_params_full =
     \<lparr> linkURL = js ''https://a.b/'', selectionText = js ''teh'', isEditable = True,
       misspelledWord = js ''teh'',
       editFlags = \<lparr> canUndo = True, canRedo = False, canCut = False, canCopy = True,
                     canPaste = False, canSelectAll = False \<rparr>,
       mediaType = js ''none'', srcURL = [], pageURL = js ''https://wavebox.io/'',
       frameURL = [], param_x = 10, param_y = 20, editable = None \<rparr>"

text \<open>The example world with one extension whose only contribution is of type
  separator.\<close>

definition ex_world_separator :: "crx_menu world" where
  "ex_world_separator =
     ex_world\<lparr>getRuntimeContextMenuData :=
       [(js ''solo'',
         \<lparr> ext_name = js ''Solo'', ext_icons = (\<lambda>k. None),
           ext_contextMenus =
             [(js ''s'', ex_menu (js ''s'') (js ''separator'') [js ''all''])] \<rparr>)]\<rparr>"

section \<open>Predicates of the specification\<close>

text \<open>The words of the specification on extension contributions: a contribution is
  page-level when its contexts hold \<open>all\<close> or \<open>page\<close>; it qualifies when it is page-level,
  or when it is declared for editable fields and the click target is one.\<close>

definition claimed_qualifies :: "context_types \<Rightarrow> params \<Rightarrow> crx_menu \<Rightarrow> bool" where
  "claimed_qualifies ct params menu =
     ((CT_ALL ct \<in> set (cm_contexts menu) \<or> CT_PAGE ct \<in> set (cm_contexts menu))
      \<or> (isEditable params \<and> CT_EDITABLE ct \<in> set (cm_contexts menu)))"

text \<open>The invariant of the binding: no webContents carries two listeners, the two kinds of
  listener are attached together, and the set holds exactly the live webContents that carry
  one.\<close>

definition service_inv :: "service \<Rightarrow> bool" where
  "service_inv s =
     (\<forall>c. contextMenuListeners s c \<le> 1
          \<and> destroyedListeners s c = contextMenuListeners s c
          \<and> (c \<in> privConnected s
               \<longleftrightarrow> contextMenuListeners s c = 1 \<and> c \<notin> destroyedContents s))"

section \<open>Assembly of sections\<close>

lemma slice_0_neg1_snoc: "slice_0_neg1 (xs @ [x]) = xs"
  by (simp add: slice_0_neg1_def)

lemma foldl_sections_acc:
  "foldl (\<lambda>acc section.
            case section of
              None \<Rightarrow> acc
            | Some entries \<Rightarrow>
                if length entries \<noteq> 0 then acc @ entries @ [separator] else acc)
         acc sections
   = acc @ concat (map (\<lambda>s. s @ [separator]) (nonempty_sections sections))"
proof (induction sections arbitrary: acc)
  case Nil
  show ?case by simp
next
  case (Cons s ss)
  show ?case
  proof (cases s)
    case None
    with Cons show ?thesis by simp
  next
    case (Some entries)
    with Cons show ?thesis by (cases "entries = []") simp_all
  qed
qed

lemma slice_concat_joined:
  "slice_0_neg1 (concat (map (\<lambda>s. s @ [separator]) ne)) = joined_by_separator ne"
proof (induction ne rule: joined_by_separator.induct)
  case 1
  show ?case by (simp add: slice_0_neg1_def)
next
  case (2 s)
  show ?case using slice_0_neg1_snoc [of s separator] by simp
next
  case (3 s t ss)
  have ne: "concat (map (\<lambda>s. s @ [separator]) (t # ss)) \<noteq> []" by simp
  have "slice_0_neg1 (a @ b) = a @ slice_0_neg1 b" if "b \<noteq> []" for a b :: "menu_item list"
    using that by (cases b rule: rev_cases) (simp_all add: slice_0_neg1_def)
  from this [OF ne, of "s @ [separator]"] 3 show ?case by simp
qed

lemma convert_is_join:
  "convertSectionsToTemplate sections = joined_by_separator (nonempty_sections sections)"
  unfolding convertSectionsToTemplate_def
  by (simp only: foldl_sections_acc append_Nil slice_concat_joined)

lemma length_joined:
  "length (joined_by_separator ne) = sum_list (map length ne) + (length ne - 1)"
  by (induction ne rule: joined_by_separator.induct) simp_all

lemma separator_is_separator: "is_separator separator"
  by (simp add: is_separator_def separator_def)

lemma count_joined:
  "(\<forall>s \<in> set ne. \<forall>m \<in> set s. \<not> is_separator m) \<Longrightarrow>
   count_separators (joined_by_separator ne) = length ne - 1"
  by (induction ne rule: joined_by_separator.induct)
     (simp_all add: count_separators_def separator_is_separator)

lemma nonempty_sections_nonempty: "s \<in> set (nonempty_sections sections) \<Longrightarrow> s \<noteq> []"
  by (induction sections rule: nonempty_sections.induct) (auto split: if_splits)

lemma hd_joined:
  "ne \<noteq> [] \<Longrightarrow> \<forall>s \<in> set ne. s \<noteq> [] \<Longrightarrow>
   hd (joined_by_separator ne) = hd (hd ne)"
  by (induction ne rule: joined_by_separator.induct) simp_all

lemma last_joined:
  "ne \<noteq> [] \<Longrightarrow> \<forall>s \<in> set ne. s \<noteq> [] \<Longrightarrow>
   last (joined_by_separator ne) = last (last ne)"
proof (induction ne rule: joined_by_separator.induct)
  case (3 s t ss)
  have "joined_by_separator (t # ss) \<noteq> []"
    using 3(3) by (cases ss) auto
  with 3 show ?case by simp
qed simp_all

text \<open>
  Claim C1 (as far as the code carries it). For every list of sections,
  \<open>convertSectionsToTemplate\<close> drops the sections that are undefined or empty and returns
  the remaining ones, in order, with one separator entry inserted between each two
  neighbours and none before the first or after the last: the result has as many entries as
  those sections together plus N - 1 for N of them, and it is empty when no section
  produces an entry. When no entry of a section is itself a separator, the result holds
  exactly N - 1 separators and neither starts nor ends with one.
\<close>

theorem convertSectionsToTemplate_joins:
  "convertSectionsToTemplate sections = joined_by_separator (nonempty_sections sections)
   \<and> length (convertSectionsToTemplate sections)
       = sum_list (map length (nonempty_sections sections))
         + (length (nonempty_sections sections) - 1)
   \<and> (nonempty_sections sections = [] \<longrightarrow> convertSectionsToTemplate sections = [])
   \<and> ((\<forall>s \<in> set (nonempty_sections sections). \<forall>m \<in> set s. \<not> is_separator m) \<longrightarrow>
        count_separators (convertSectionsToTemplate sections)
          = length (nonempty_sections sections) - 1
        \<and> (nonempty_sections sections \<noteq> [] \<longrightarrow>
             \<not> is_separator (hd (convertSectionsToTemplate sections))
             \<and> \<not> is_separator (last (convertSectionsToTemplate sections))))"
proof -
  let ?ne = "nonempty_sections sections"
  have eq: "convertSectionsToTemplate sections = joined_by_separator ?ne"
    by (rule convert_is_join)
  have len: "length (convertSectionsToTemplate sections)
               = sum_list (map length ?ne) + (length ?ne - 1)"
    by (simp only: eq length_joined)
  have emp: "?ne = [] \<longrightarrow> convertSectionsToTemplate sections = []"
    by (simp add: eq)
  have all_ne: "\<forall>s \<in> set ?ne. s \<noteq> []"
    using nonempty_sections_nonempty by blast
  have cnt: "count_separators (convertSectionsToTemplate sections) = length ?ne - 1
             \<and> (?ne \<noteq> [] \<longrightarrow>
                  \<not> is_separator (hd (convertSectionsToTemplate sections))
                  \<and> \<not> is_separator (last (convertSectionsToTemplate sections)))"
    if free: "\<forall>s \<in> set ?ne. \<forall>m \<in> set s. \<not> is_separator m"
  proof -
    have c: "count_separators (convertSectionsToTemplate sections) = length ?ne - 1"
      using count_joined [OF free] by (simp only: eq)
    have e: "\<not> is_separator (hd (convertSectionsToTemplate sections))
             \<and> \<not> is_separator (last (convertSectionsToTemplate sections))"
      if nonempty: "?ne \<noteq> []"
    proof -
      have h: "hd ?ne \<in> set ?ne" and l: "last ?ne \<in> set ?ne"
        using nonempty by simp_all
      have "hd (hd ?ne) \<in> set (hd ?ne)" and "last (last ?ne) \<in> set (last ?ne)"
        using h l all_ne by simp_all
      with h l free have "\<not> is_separator (hd (hd ?ne))" and "\<not> is_separator (last (last ?ne))"
        by blast+
      then show ?thesis
        by (simp add: eq hd_joined [OF nonempty all_ne] last_joined [OF nonempty all_ne])
    qed
    from c e show ?thesis by blast
  qed
  from eq len emp cnt show ?thesis by blast
qed

text \<open>The example of the specification, sections [[], [A], [], [B, C]], with an undefined
  section added: the result is [A, separator, B, C].\<close>

theorem convertSectionsToTemplate_joins_witness:
  "nonempty_sections
     [Some [], Some [MenuItem (Some (js ''A'')) None None None None None None None], None,
      Some [], Some [MenuItem (Some (js ''B'')) None None None None None None None,
                     MenuItem (Some (js ''C'')) None None None None None None None]]
     = [[MenuItem (Some (js ''A'')) None None None None None None None],
        [MenuItem (Some (js ''B'')) None None None None None None None,
         MenuItem (Some (js ''C'')) None None None None None None None]]
   \<and> \<not> is_separator (MenuItem (Some (js ''A'')) None None None None None None None)
   \<and> \<not> is_separator (MenuItem (Some (js ''B'')) None None None None None None None)
   \<and> \<not> is_separator (MenuItem (Some (js ''C'')) None None None None None None None)
   \<and> convertSectionsToTemplate
     [Some [], Some [MenuItem (Some (js ''A'')) None None None None None None None], None,
      Some [], Some [MenuItem (Some (js ''B'')) None None None None None None None,
                     MenuItem (Some (js ''C'')) None None None None None None None]]
     = [MenuItem (Some (js ''A'')) None None None None None None None, separator,
        MenuItem (Some (js ''B'')) None None None None None None None,
        MenuItem (Some (js ''C'')) None None None None None None None]
   \<and> count_separators (convertSectionsToTemplate
     [Some [], Some [MenuItem (Some (js ''A'')) None None None None None None None], None,
      Some [], Some [MenuItem (Some (js ''B'')) None None None None None None None,
                     MenuItem (Some (js ''C'')) None None None None None None None]]) = 1"
  using convertSectionsToTemplate_joins
    [of "[Some [], Some [MenuItem (Some (js ''A'')) None None None None None None None], None,
      Some [], Some [MenuItem (Some (js ''B'')) None None None None None None None,
                     MenuItem (Some (js ''C'')) None None None None None None None]]"]
  by (simp add: is_separator_def count_separators_def separator_def js_def)

text \<open>A section that is a single separator entry comes out as it is: one non-empty
  section, and the result starts and ends with a separator.\<close>

lemma convertSectionsToTemplate_single_separator:
  "convertSectionsToTemplate [Some [separator]] = [separator]"
  by (simp add: convertSectionsToTemplate_def slice_0_neg1_def)

lemma extension_section_separator:
  "renderExtensionSection ex_world_separator 7 ex_params
     = [MenuItem None None (Some (js ''separator'')) None None (Some (CreateFromPath None))
          None None]"
  by (simp add: renderExtensionSection_def ex_world_separator_def ex_world_def ex_windows_def
        mungeExtensionContextMenus_def pushExtension_def Let_def validContextMenu_def
        std_context_types_def std_item_types_def ex_menu_def js_or_def truthy_def js_def
        ex_params_def renderExtensionMenuItem_def)

text \<open>
  The claim as it is written fails on a section that holds a separator entry of its own.
  \<open>launchMenu\<close> passes such a list: an extension whose one qualifying contribution is of
  type separator makes the extension section that entry. Four sections are non-empty
  (page navigation, page external, extensions, Wavebox) and the template holds four
  separators, not three.
\<close>

theorem convertSectionsToTemplate_separator_count_counterexample:
  "length (nonempty_sections (sections_of ex_world_separator 7 ex_params)) = 4
   \<and> count_separators (convertSectionsToTemplate (sections_of ex_world_separator 7 ex_params))
       = 4"
proof -
  have e: "renderSpellingSection ex_world_separator 7 ex_params = []"
     "renderURLSection ex_world_separator 7 ex_params = []"
     "renderLookupAndSearchSection ex_world_separator 7 ex_params = []"
     "renderRewindSection ex_world_separator 7 ex_params = []"
     "renderEditingSection ex_world_separator 7 ex_params = []"
    by (simp_all add: renderSpellingSection_def renderURLSection_def
          renderLookupAndSearchSection_def renderRewindSection_def renderEditingSection_def
          ex_params_def truthy_def js_def)
  have n: "renderPageNavigationSection ex_world_separator 7 ex_params
       = [MenuItem (Some (js ''Go Back'')) None None (Some False) None None None (Some (GoBack 7)),
          MenuItem (Some (js ''Go Forward'')) None None (Some False) None None None
            (Some (GoForward 7)),
          MenuItem (Some (js ''Reload'')) None None None None None None (Some (Reload 7))]"
    by (simp add: renderPageNavigationSection_def ex_world_separator_def ex_world_def)
  have v: "renderWaveboxSection ex_world_separator 7 ex_params
       = [MenuItem (Some (js ''Wavebox Settings'')) None None None None None None
            (Some (WaveboxSettings 7)),
          MenuItem (Some (js ''Inspect'')) None None None None None None (Some (Inspect 7 10 20))]"
    by (simp add: renderWaveboxSection_def ex_world_separator_def ex_world_def ex_params_def)
  show ?thesis
    by (simp add: convert_is_join sections_of_def e n v extension_section_separator
          renderPageExternalSection_def count_separators_def is_separator_def separator_def
          js_def)
qed

section \<open>The extension section\<close>

text \<open>
  Claim C10. When \<open>WaveboxWindow.fromTabId\<close> finds no window for the id of the sending
  webContents, \<open>renderExtensionSection\<close> returns the empty section, whatever the extension
  runtime has registered.
\<close>

theorem renderExtensionSection_unrecognized_tab:
  "fromTabId (windows w) contents = None \<Longrightarrow> renderExtensionSection w contents params = []"
  by (simp add: renderExtensionSection_def)

theorem renderExtensionSection_unrecognized_tab_witness:
  "fromTabId (windows ex_world) 5 = None
   \<and> getRuntimeContextMenuData ex_world \<noteq> []
   \<and> renderExtensionSection ex_world 5 ex_params = []"
  using renderExtensionSection_unrecognized_tab [of ex_world 5 ex_params]
  by (simp add: ex_world_def ex_windows_def)

text \<open>The filter of the source asks \<open>contexts.has\<close> for one value only, that of
  \<open>CONTEXT_TYPES.ALL || CONTEXT_TYPES.PAGE\<close>, which is \<open>ALL\<close> whenever \<open>ALL\<close> is a
  non-empty string.\<close>

lemma validContextMenu_has_all:
  "truthy (CT_ALL ct) \<Longrightarrow>
   validContextMenu ct params menu
     = (CT_ALL ct \<in> set (cm_contexts menu)
        \<or> (isEditable params \<and> CT_EDITABLE ct \<in> set (cm_contexts menu)))"
  by (auto simp: validContextMenu_def js_or_def Let_def)

text \<open>
  Claim C2, at the input where the code leaves it. A contribution whose only context is
  \<open>page\<close> is page-level and qualifies in the words of the claim; with a click target
  that is not editable the filter of \<open>renderExtensionSection\<close> rejects it, and the section
  of an extension that declares nothing else is empty.
\<close>

theorem validContextMenu_rejects_page_only:
  "claimed_qualifies std_context_types ex_params (ex_menu (js ''p'') (js ''normal'') [js ''page''])
   \<and> \<not> validContextMenu std_context_types ex_params
         (ex_menu (js ''p'') (js ''normal'') [js ''page''])
   \<and> renderExtensionSection
       (ex_world\<lparr>getRuntimeContextMenuData :=
          [(js ''solo'',
            \<lparr> ext_name = js ''Solo'', ext_icons = (\<lambda>k. None),
              ext_contextMenus =
                [(js ''p'', ex_menu (js ''p'') (js ''normal'') [js ''page''])] \<rparr>)]\<rparr>)
       7 ex_params = []"
  by (simp add: claimed_qualifies_def validContextMenu_def std_context_types_def ex_menu_def
        ex_params_def js_or_def truthy_def js_def renderExtensionSection_def ex_world_def
        ex_windows_def mungeExtensionContextMenus_def pushExtension_def Let_def)

lemma render_item_no_submenu:
  "renderExtensionMenuItem w contents params extensionId m = Some item \<Longrightarrow> submenu item = None"
  by (auto simp: renderExtensionMenuItem_def split: if_splits)

lemma assign_icon_submenu:
  "submenu (assign_icon i None) = None"
  "submenu (assign_icon i (Some item)) = submenu item"
  by (simp, cases item, simp)

lemma flattened_no_submenu:
  "submenu (assign_icon i (renderExtensionMenuItem w contents params extensionId m)) = None"
  by (cases "renderExtensionMenuItem w contents params extensionId m")
     (simp_all add: assign_icon_submenu render_item_no_submenu)

lemma foldl_pushExtension:
  "foldl (pushExtension w contents params) template entries
     = template @ concat (map (pushExtension w contents params []) entries)"
proof (induction entries arbitrary: template)
  case Nil
  show ?case by simp
next
  case (Cons e es)
  have "pushExtension w contents params template e
          = template @ pushExtension w contents params [] e"
    by (simp add: pushExtension_def Let_def)
  with Cons show ?case by simp
qed

text \<open>
  Claim C3. On a recognized tab the extension section is, extension by extension in the
  order of the runtime's data, what each extension pushes. With \<open>valid\<close> the contributions
  of an extension that pass the filter: none gives no entry; exactly one gives one
  top-level entry, the rendered contribution with the extension's icon, and it has no
  submenu; two or more give one top-level entry labelled with the extension's name whose
  submenu holds the rendered contributions in order.
\<close>

theorem renderExtensionSection_per_extension:
  "fromTabId (windows w) contents = Some waveboxWindow \<Longrightarrow>
   renderExtensionSection w contents params
     = concat (map (pushExtension w contents params []) (mungeExtensionContextMenus w))
   \<and> (\<forall>extensionId ext valid.
        valid = filter (validContextMenu (CONTEXT_TYPES w) params) (ext_contextMenus ext) \<longrightarrow>
        (length valid = 0 \<longrightarrow> pushExtension w contents params [] (extensionId, ext) = [])
        \<and> (length valid = 1 \<longrightarrow>
             (\<exists>item. pushExtension w contents params [] (extensionId, ext) = [item]
                \<and> item = assign_icon (CreateFromPath (ext_icons ext (js ''16'')))
                           (renderExtensionMenuItem w contents params extensionId (hd valid))
                \<and> submenu item = None))
        \<and> (length valid \<ge> 2 \<longrightarrow>
             (\<exists>item. pushExtension w contents params [] (extensionId, ext) = [item]
                \<and> label item = Some (ext_name ext)
                \<and> submenu item
                    = Some (map (renderExtensionMenuItem w contents params extensionId) valid))))"
  by (simp add: renderExtensionSection_def foldl_pushExtension pushExtension_def Let_def
        flattened_no_submenu)

text \<open>In the example world, on tab 7 and outside an editable field, extension \<open>solo\<close> has
  one qualifying contribution and \<open>duo\<close> two: the section is the flattened item of
  \<open>solo\<close> followed by the group of \<open>duo\<close>.\<close>

theorem renderExtensionSection_per_extension_witness:
  "fromTabId (windows ex_world) 7
     = Some \<lparr> rootWebContentsHasContextMenu = False, rootWebContentsId = 3 \<rparr>
   \<and> length (filter (validContextMenu (CONTEXT_TYPES ex_world) ex_params)
               [ex_menu (js ''a'') (js ''normal'') [js ''all''],
                ex_menu (js ''b'') (js ''checkbox'') [js ''editable'']]) = 1
   \<and> length (filter (validContextMenu (CONTEXT_TYPES ex_world) ex_params)
               [ex_menu (js ''c'') (js ''normal'') [js ''all''],
                ex_menu (js ''d'') (js ''radio'') [js ''all'', js ''page'']]) = 2
   \<and> (\<exists>flat group.
        renderExtensionSection ex_world 7 ex_params = [flat, group]
        \<and> label flat = Some (js ''Item a'') \<and> submenu flat = None
        \<and> label group = Some (js ''Duo'')
        \<and> map_option (map (map_option label)) (submenu group)
            = Some [Some (Some (js ''Item c'')), Some (Some (js ''Item d''))])"
  using renderExtensionSection_per_extension
    [of ex_world 7 "\<lparr> rootWebContentsHasContextMenu = False, rootWebContentsId = 3 \<rparr>" ex_params]
  by (simp add: ex_world_def ex_windows_def mungeExtensionContextMenus_def pushExtension_def
        Let_def validContextMenu_def std_context_types_def std_item_types_def ex_menu_def
        js_or_def truthy_def js_def ex_params_def renderExtensionMenuItem_def)

section \<open>Selecting an extension item\<close>

text \<open>What \<open>extensionOptionSelected\<close> copies into the payload: the ids, the media type
  (absent when it is \<open>none\<close>), the four URLs and the selection text of the event
  parameters, the property \<open>editable\<close> of the event parameters, and the previous and the
  negated checked state exactly for the types checkbox and radio.\<close>

lemma clickParams_fields:
  "menuItemId (clickParams it m p) = cm_id m
   \<and> parentMenuItemId (clickParams it m p) = cm_parentId m
   \<and> cp_mediaType (clickParams it m p)
       = (if mediaType p = js ''none'' then None else Some (mediaType p))
   \<and> linkUrl (clickParams it m p) = linkURL p
   \<and> srcUrl (clickParams it m p) = srcURL p
   \<and> pageUrl (clickParams it m p) = pageURL p
   \<and> frameUrl (clickParams it m p) = frameURL p
   \<and> cp_selectionText (clickParams it m p) = selectionText p
   \<and> cp_editable (clickParams it m p) = editable p
   \<and> (if cm_type m = IT_CHECKBOX it \<or> cm_type m = IT_RADIO it
       then wasChecked (clickParams it m p) = Some (cm_checked m)
            \<and> cp_checked (clickParams it m p) = Some (\<not> cm_checked m)
       else wasChecked (clickParams it m p) = None \<and> cp_checked (clickParams it m p) = None)"
  by (simp add: clickParams_def Let_def)

text \<open>
  Claim C5, at the input where the code leaves it. Electron's context-menu parameters
  carry the editability of the click target as \<open>isEditable\<close>, the property every other
  function of the file reads, and have no property \<open>editable\<close>. For a click in an
  editable field on a live webContents the payload forwarded to the runtime holds no
  editability flag: its \<open>editable\<close> is undefined.
\<close>

theorem extensionOptionSelected_editable_undefined:
  "isEditable (ex_params\<lparr>isEditable := True\<rparr>)
   \<and> \<not> isDestroyed ex_world 7
   \<and> (\<exists>payload.
        run_click ex_world
          (ExtensionOptionSelected 7 (js ''solo'') (ex_menu (js ''a'') (js ''normal'') [js ''all''])
             (ex_params\<lparr>isEditable := True\<rparr>))
          = Inr [ContextMenuItemSelected (js ''solo'') 7 payload]
        \<and> cp_editable payload = None)"
  by (simp add: extensionOptionSelected_def clickParams_def ex_world_def ex_params_def Let_def)

text \<open>
  Claim C6. The click handler of an extension item, run when its webContents is destroyed,
  makes no call and raises no error; run when the webContents is alive, it makes the one
  call \<open>contextMenuItemSelected\<close> with the extension id, the webContents and the payload.
\<close>

theorem extension_click_destroyed_noop:
  "(isDestroyed w contents \<longrightarrow>
      run_click w (ExtensionOptionSelected contents extensionId menuItem params) = Inr [])
   \<and> (\<not> isDestroyed w contents \<longrightarrow>
      run_click w (ExtensionOptionSelected contents extensionId menuItem params)
        = Inr [ContextMenuItemSelected extensionId contents
                 (clickParams (ITEM_TYPES w) menuItem params)])"
  by (simp add: extensionOptionSelected_def)

theorem extension_click_destroyed_noop_witness:
  "isDestroyed ex_world 9
   \<and> run_click ex_world
       (ExtensionOptionSelected 9 (js ''solo'') (ex_menu (js ''a'') (js ''normal'') [js ''all''])
          ex_params) = Inr []
   \<and> \<not> isDestroyed ex_world 7
   \<and> run_click ex_world
       (ExtensionOptionSelected 7 (js ''solo'') (ex_menu (js ''a'') (js ''normal'') [js ''all''])
          ex_params)
     = Inr [ContextMenuItemSelected (js ''solo'') 7
              (clickParams std_item_types (ex_menu (js ''a'') (js ''normal'') [js ''all''])
                 ex_params)]"
  using extension_click_destroyed_noop
      [of ex_world 9 "js ''solo''" "ex_menu (js ''a'') (js ''normal'') [js ''all'']" ex_params]
    extension_click_destroyed_noop
      [of ex_world 7 "js ''solo''" "ex_menu (js ''a'') (js ''normal'') [js ''all'']" ex_params]
  by (simp add: ex_world_def)

section \<open>Launching the menu\<close>

text \<open>
  Claim C7. When the sending webContents has no root webContents, or its root has no
  browser window, \<open>launchMenu\<close> returns at once: it builds no template, pops up no menu,
  sets no timer and raises nothing, so the menus and timers are as before the event.
\<close>

theorem launchMenu_aborts_without_window:
  "rootWebContents (windows w) sender = None
     \<or> (\<exists>r. rootWebContents (windows w) sender = Some r \<and> fromWebContents (windows w) r = None)
   \<Longrightarrow> launchMenu w sender params = []
       \<and> ui_step rt (ContextMenuEvent w sender params) = rt"
  by (auto simp: launchMenu_def)

theorem launchMenu_aborts_without_window_witness:
  "rootWebContents (windows ex_world) 5 = None
   \<and> launchMenu ex_world 5 ex_params = []
   \<and> rootWebContents (windows ex_world) 8 = Some 4
   \<and> fromWebContents (windows ex_world) 4 = None
   \<and> launchMenu ex_world 8 ex_params = []
   \<and> ui_step new_runtime (ContextMenuEvent ex_world 8 ex_params) = new_runtime"
  using launchMenu_aborts_without_window [of ex_world 5 ex_params new_runtime]
    launchMenu_aborts_without_window [of ex_world 8 ex_params new_runtime]
  by (simp add: ex_world_def ex_windows_def)

lemma nonempty_sections_map_Some:
  "nonempty_sections (map Some xs) = filter (\<lambda>s. s \<noteq> []) xs"
  by (induction xs) simp_all

text \<open>
  Claim C4. Whenever \<open>launchMenu\<close> finds the window of the sender, the template it hands
  to \<open>Menu.buildFromTemplate\<close> (and pops up) is made of the sections in this order:
  spelling, URL, lookup and search, undo and redo, editing, page navigation, page external,
  extensions, Wavebox; the sections that produce entries follow each other in that order
  with a separator between neighbours.
\<close>

theorem launchMenu_section_order:
  assumes "rootWebContents (windows w) sender = Some rootContents"
    and "fromWebContents (windows w) rootContents = Some browserWindow"
  shows "\<exists>menu. launchMenu w sender params
            = [MenuBuildFromTemplate menu, MenuPopup menu browserWindow, SetTimeout menu 100]
         \<and> menu = joined_by_separator (filter (\<lambda>s. s \<noteq> [])
             [renderSpellingSection w sender params,
              renderURLSection w sender params,
              renderLookupAndSearchSection w sender params,
              renderRewindSection w sender params,
              renderEditingSection w sender params,
              renderPageNavigationSection w sender params,
              renderPageExternalSection w sender params,
              renderExtensionSection w sender params,
              renderWaveboxSection w sender params])"
proof -
  have "sections_of w sender params = map Some
             [renderSpellingSection w sender params,
              renderURLSection w sender params,
              renderLookupAndSearchSection w sender params,
              renderRewindSection w sender params,
              renderEditingSection w sender params,
              renderPageNavigationSection w sender params,
              renderPageExternalSection w sender params,
              renderExtensionSection w sender params,
              renderWaveboxSection w sender params]"
    by (simp add: sections_of_def)
  then have "convertSectionsToTemplate (sections_of w sender params)
      = joined_by_separator (filter (\<lambda>s. s \<noteq> [])
             [renderSpellingSection w sender params,
              renderURLSection w sender params,
              renderLookupAndSearchSection w sender params,
              renderRewindSection w sender params,
              renderEditingSection w sender params,
              renderPageNavigationSection w sender params,
              renderPageExternalSection w sender params,
              renderExtensionSection w sender params,
              renderWaveboxSection w sender params])"
    by (simp only: convert_is_join nonempty_sections_map_Some)
  with assms show ?thesis
    by (simp add: launchMenu_def Let_def)
qed

text \<open>With every section non-empty the template is the nine sections in order, eight
  separators between them.\<close>

theorem launchMenu_section_order_witness:
  "rootWebContents (windows ex_world) 7 = Some 3
   \<and> fromWebContents (windows ex_world) 3
       = Some \<lparr> bw_webContents = 3, bw_ownerId = js ''main'' \<rparr>
   \<and> renderSpellingSection ex_world 7 ex_params_full \<noteq> []
   \<and> renderURLSection ex_world 7 ex_params_full \<noteq> []
   \<and> renderLookupAndSearchSection ex_world 7 ex_params_full \<noteq> []
   \<and> renderRewindSection ex_world 7 ex_params_full \<noteq> []
   \<and> renderEditingSection ex_world 7 ex_params_full \<noteq> []
   \<and> renderExtensionSection ex_world 7 ex_params_full \<noteq> []
   \<and> hd (launchMenu ex_world 7 ex_params_full)
       = MenuBuildFromTemplate
            (renderSpellingSection ex_world 7 ex_params_full @ [separator]
             @ renderURLSection ex_world 7 ex_params_full @ [separator]
             @ renderLookupAndSearchSection ex_world 7 ex_params_full @ [separator]
             @ renderRewindSection ex_world 7 ex_params_full @ [separator]
             @ renderEditingSection ex_world 7 ex_params_full @ [separator]
             @ renderPageNavigationSection ex_world 7 ex_params_full @ [separator]
             @ renderPageExternalSection ex_world 7 ex_params_full @ [separator]
             @ renderExtensionSection ex_world 7 ex_params_full @ [separator]
             @ renderWaveboxSection ex_world 7 ex_params_full)"
proof -
  have r: "rootWebContents (windows ex_world) 7 = Some 3"
    by (simp add: ex_world_def ex_windows_def)
  have b: "fromWebContents (windows ex_world) 3
             = Some \<lparr> bw_webContents = 3, bw_ownerId = js ''main'' \<rparr>"
    by (simp add: ex_world_def ex_windows_def)
  have s1: "renderSpellingSection ex_world 7 ex_params_full \<noteq> []"
    by (simp add: renderSpellingSection_def renderSpellingSuggestionMenuItems_def
          ex_params_full_def ex_world_def truthy_def js_def)
  have s2: "renderURLSection ex_world 7 ex_params_full \<noteq> []"
    by (simp add: renderURLSection_def ex_params_full_def truthy_def js_def)
  have s3: "renderLookupAndSearchSection ex_world 7 ex_params_full \<noteq> []"
    by (simp add: renderLookupAndSearchSection_def ex_params_full_def truthy_def js_def)
  have s4: "renderRewindSection ex_world 7 ex_params_full \<noteq> []"
    by (simp add: renderRewindSection_def ex_params_full_def)
  have s5: "renderEditingSection ex_world 7 ex_params_full \<noteq> []"
    by (simp add: renderEditingSection_def ex_params_full_def js_def)
  have s6: "renderPageNavigationSection ex_world 7 ex_params_full \<noteq> []"
    by (simp add: renderPageNavigationSection_def)
  have s7: "renderPageExternalSection ex_world 7 ex_params_full \<noteq> []"
    by (simp add: renderPageExternalSection_def)
  have s8: "renderExtensionSection ex_world 7 ex_params_full \<noteq> []"
    by (simp add: renderExtensionSection_def ex_world_def ex_windows_def
          mungeExtensionContextMenus_def pushExtension_def Let_def validContextMenu_def
          std_context_types_def ex_menu_def js_or_def truthy_def js_def ex_params_full_def)
  have s9: "renderWaveboxSection ex_world 7 ex_params_full \<noteq> []"
    by (simp add: renderWaveboxSection_def)
  from launchMenu_section_order [OF r b, of ex_params_full] r b s1 s2 s3 s4 s5 s6 s7 s8 s9
  show ?thesis
    by auto
qed

section \<open>One listener per webContents\<close>

lemma new_service_inv: "service_inv new_service"
  by (simp add: service_inv_def new_service_def)

lemma bindContextMenu_inv:
  assumes "service_inv s"
  shows "service_inv (bindContextMenu wins s c)"
proof -
  have unbound: "contextMenuListeners s c = 0"
    if "c \<notin> destroyedContents s" "c \<notin> privConnected s"
    using assms that unfolding service_inv_def
    by (metis le_neq_implies_less less_one)
  show ?thesis
  proof (cases "c \<in> destroyedContents s \<or> c \<in> privConnected s")
    case True
    with assms show ?thesis by (auto simp: bindContextMenu_def)
  next
    case False
    then have z: "contextMenuListeners s c = 0" using unbound by simp
    from assms False z show ?thesis
      unfolding bindContextMenu_def service_inv_def
      by (auto split: option.splits simp: Let_def)
  qed
qed

lemma app_step_inv:
  assumes "service_inv s"
  shows "service_inv (app_step s ev)"
proof (cases ev)
  case (WebContentsCreated c)
  with assms show ?thesis by (simp add: handleWebContentsCreated_def service_inv_def)
next
  case (BrowserWindowCreated b)
  with assms show ?thesis
    by (simp add: handleBrowserWindowCreated_def handleWebContentsCreated_def service_inv_def)
next
  case (Immediate wins)
  show ?thesis
  proof (cases "immediates s")
    case Nil
    with Immediate assms show ?thesis by simp
  next
    case (Cons c rest)
    have "service_inv (s\<lparr>immediates := rest\<rparr>)"
      using assms by (simp add: service_inv_def)
    from bindContextMenu_inv [OF this] Immediate Cons show ?thesis by simp
  qed
next
  case (Destroyed c)
  with assms show ?thesis
    unfolding service_inv_def by auto
qed

lemma app_run_inv: "service_inv s \<Longrightarrow> service_inv (app_run s evs)"
  unfolding app_run_def
  by (induction evs arbitrary: s) (simp_all add: app_step_inv)

text \<open>
  Claim C8. After any sequence of creation events, runs of the queued callbacks and
  destructions, starting from the freshly constructed service, no webContents carries more
  than one context-menu listener of the service; the callback run for a webContents whose
  id is in the set changes nothing (it attaches no listener); and after a webContents is
  destroyed its id is not in the set.
\<close>

theorem at_most_one_listener:
  "(\<forall>c. contextMenuListeners (app_run new_service evs) c \<le> 1)
   \<and> (\<forall>wins c. c \<in> privConnected (app_run new_service evs) \<longrightarrow>
         bindContextMenu wins (app_run new_service evs) c = app_run new_service evs)
   \<and> (\<forall>c. c \<notin> privConnected (app_step (app_run new_service evs) (Destroyed c)))"
proof -
  have inv: "service_inv (app_run new_service evs)"
    by (rule app_run_inv [OF new_service_inv])
  have a: "\<forall>c. contextMenuListeners (app_run new_service evs) c \<le> 1"
    using inv by (simp add: service_inv_def)
  have b: "\<forall>wins c. c \<in> privConnected (app_run new_service evs) \<longrightarrow>
         bindContextMenu wins (app_run new_service evs) c = app_run new_service evs"
    by (simp add: bindContextMenu_def)
  have c: "\<forall>c. c \<notin> privConnected (app_step (app_run new_service evs) (Destroyed c))"
    using inv by (auto simp: service_inv_def)
  from a b c show ?thesis by blast
qed

text \<open>Two creation events for webContents 7 and two runs of the callback leave one
  listener and the set {7}; a further callback changes nothing; destroying 7 empties the
  set, and a later creation event for the destroyed webContents attaches nothing.\<close>

theorem at_most_one_listener_witness:
  "contextMenuListeners
     (app_run new_service
        [WebContentsCreated 7, WebContentsCreated 7, Immediate ex_windows, Immediate ex_windows])
     7 = 1
   \<and> privConnected
       (app_run new_service
          [WebContentsCreated 7, WebContentsCreated 7, Immediate ex_windows, Immediate ex_windows])
     = {7}
   \<and> bindContextMenu ex_windows
       (app_run new_service
          [WebContentsCreated 7, WebContentsCreated 7, Immediate ex_windows, Immediate ex_windows])
       7
     = app_run new_service
         [WebContentsCreated 7, WebContentsCreated 7, Immediate ex_windows, Immediate ex_windows]
   \<and> privConnected
       (app_run new_service
          [WebContentsCreated 7, WebContentsCreated 7, Immediate ex_windows, Immediate ex_windows,
           Destroyed 7])
     = {}
   \<and> contextMenuListeners
       (app_run new_service
          [WebContentsCreated 7, WebContentsCreated 7, Immediate ex_windows, Immediate ex_windows,
           Destroyed 7, WebContentsCreated 7, Immediate ex_windows])
       7 = 1"
  using at_most_one_listener
    [of "[WebContentsCreated 7, WebContentsCreated 7, Immediate ex_windows, Immediate ex_windows]"]
  by (simp add: app_run_def new_service_def handleWebContentsCreated_def bindContextMenu_def
        ex_windows_def Let_def)

section \<open>Tearing the menu down\<close>

lemma click_effects_keep_runtime:
  "run_click w c = Inr effects \<Longrightarrow> e \<in> set effects \<Longrightarrow> apply_effect rt e = rt"
  by (cases c)
     (auto simp: apply_effect_def openLinkInWaveboxWindow_def openWaveboxSettings_def
        extensionOptionSelected_def Let_def split: if_splits option.splits)

lemma foldl_apply_effect_keep:
  "(\<And>e. e \<in> set effects \<Longrightarrow> apply_effect rt e = rt) \<Longrightarrow> foldl apply_effect rt effects = rt"
  by (induction effects) simp_all

text \<open>No click handler of the file touches a menu or a timer.\<close>

lemma ui_step_click: "ui_step rt (ClickEvent w c) = rt"
proof (cases "run_click w c")
  case (Inl err)
  then show ?thesis by simp
next
  case (Inr effects)
  then show ?thesis
    using foldl_apply_effect_keep [of effects rt] click_effects_keep_runtime [OF Inr]
    by simp
qed

lemma ui_run_clicks: "ui_run rt (map (\<lambda>(w, c). ClickEvent w c) clicks) = rt"
  unfolding ui_run_def
  by (induction clicks) (simp_all add: ui_step_click split_beta del: ui_step.simps)

lemma launchMenu_runtime:
  "timers (ui_step rt (ContextMenuEvent w sender params))
     = timers rt @ map (\<lambda>e. case e of SetTimeout menu ms \<Rightarrow> (ms, menu))
                       (filter (\<lambda>e. case e of SetTimeout menu ms \<Rightarrow> True | _ \<Rightarrow> False)
                          (launchMenu w sender params))
   \<and> destroyedMenus (ui_step rt (ContextMenuEvent w sender params)) = destroyedMenus rt"
  by (simp add: launchMenu_def apply_effect_def Let_def split: option.splits)

lemma ui_step_timers_kept:
  "(r, menu) \<in> set (timers rt) \<Longrightarrow>
   (r, menu) \<in> set (timers (ui_step rt (ContextMenuEvent w sender params)))"
  by (simp add: launchMenu_runtime del: ui_step.simps)

lemma destroyed_step_mono:
  "menu \<in> set (destroyedMenus rt) \<Longrightarrow> menu \<in> set (destroyedMenus (ui_step rt ev))"
proof (cases ev)
  case (ContextMenuEvent w sender params)
  assume "menu \<in> set (destroyedMenus rt)"
  with ContextMenuEvent show ?thesis by (simp add: launchMenu_runtime del: ui_step.simps)
next
  case (ClickEvent w c)
  assume "menu \<in> set (destroyedMenus rt)"
  with ClickEvent show ?thesis by (simp add: ui_step_click del: ui_step.simps)
next
  case (Elapse ms)
  assume "menu \<in> set (destroyedMenus rt)"
  with Elapse show ?thesis by simp
qed

lemma destroyed_run_mono:
  "menu \<in> set (destroyedMenus rt) \<Longrightarrow> menu \<in> set (destroyedMenus (ui_run rt evs))"
  unfolding ui_run_def
  by (induction evs arbitrary: rt) (simp_all add: destroyed_step_mono del: ui_step.simps)

text \<open>A pending timer fires whatever events arrive before its delay has elapsed.\<close>

lemma timer_fires:
  "(r, menu) \<in> set (timers rt) \<Longrightarrow> 0 < r \<Longrightarrow> r \<le> elapsed evs \<Longrightarrow>
   menu \<in> set (destroyedMenus (ui_run rt evs))"
proof (induction evs arbitrary: rt r)
  case Nil
  then show ?case by simp
next
  case (Cons ev evs)
  show ?case
  proof (cases ev)
    case (ContextMenuEvent w sender params)
    have "(r, menu) \<in> set (timers (ui_step rt ev))"
      unfolding ContextMenuEvent by (rule ui_step_timers_kept [OF Cons.prems(1)])
    moreover have "r \<le> elapsed evs" using Cons.prems(3) ContextMenuEvent by simp
    ultimately have "menu \<in> set (destroyedMenus (ui_run (ui_step rt ev) evs))"
      using Cons.IH Cons.prems(2) by blast
    then show ?thesis by (simp add: ui_run_def del: ui_step.simps)
  next
    case (ClickEvent w c)
    have "ui_step rt ev = rt" unfolding ClickEvent by (rule ui_step_click)
    moreover have "r \<le> elapsed evs" using Cons.prems(3) ClickEvent by simp
    ultimately have "menu \<in> set (destroyedMenus (ui_run (ui_step rt ev) evs))"
      using Cons.IH Cons.prems(1,2) by simp
    then show ?thesis by (simp add: ui_run_def del: ui_step.simps)
  next
    case (Elapse ms)
    show ?thesis
    proof (cases "r \<le> ms")
      case True
      with Cons.prems(1) have "menu \<in> set (destroyedMenus (ui_step rt ev))"
        unfolding Elapse by force
      from destroyed_run_mono [OF this] show ?thesis
        by (simp add: ui_run_def del: ui_step.simps)
    next
      case False
      with Cons.prems(1) have "(r - ms, menu) \<in> set (timers (ui_step rt ev))"
        unfolding Elapse by force
      moreover have "0 < r - ms" using False by simp
      moreover have "r - ms \<le> elapsed evs" using Cons.prems(3) Elapse by simp
      ultimately have "menu \<in> set (destroyedMenus (ui_run (ui_step rt ev) evs))"
        using Cons.IH by blast
      then show ?thesis by (simp add: ui_run_def del: ui_step.simps)
    qed
  qed
qed

text \<open>
  Claim C9 (as far as the code carries it). Whenever \<open>launchMenu\<close> displays a menu it sets,
  right after the call of \<open>popup\<close>, one timer of 100 ms whose callback destroys that menu,
  and it destroys nothing itself. The timer is the only trigger of the teardown: click
  handlers, however many run, leave the timer pending and the menu undestroyed; and once
  100 ms have elapsed the menu is destroyed, whatever clicks and further context-menu
  events arrived in between, also when there was none.
\<close>

theorem teardown_by_timer_only:
  fixes w :: "'d world"
  assumes "rootWebContents (windows w) sender = Some rootContents"
    and "fromWebContents (windows w) rootContents = Some browserWindow"
  shows "\<exists>menu.
      launchMenu w sender params
        = [MenuBuildFromTemplate menu, MenuPopup menu browserWindow, SetTimeout menu 100]
    \<and> timers (ui_step rt (ContextMenuEvent w sender params)) = timers rt @ [(100, menu)]
    \<and> destroyedMenus (ui_step rt (ContextMenuEvent w sender params)) = destroyedMenus rt
    \<and> (\<forall>clicks :: ('d world \<times> click) list.
          ui_run (ui_step rt (ContextMenuEvent w sender params))
                 (map (\<lambda>(w', c). ClickEvent w' c) clicks)
            = ui_step rt (ContextMenuEvent w sender params))
    \<and> (\<forall>evs :: 'd ui_event list. 100 \<le> elapsed evs \<longrightarrow>
          menu \<in> set (destroyedMenus (ui_run (ui_step rt (ContextMenuEvent w sender params)) evs)))"
proof -
  let ?menu = "convertSectionsToTemplate (sections_of w sender params)"
  let ?rt1 = "ui_step rt (ContextMenuEvent w sender params)"
  have l: "launchMenu w sender params
        = [MenuBuildFromTemplate ?menu, MenuPopup ?menu browserWindow, SetTimeout ?menu 100]"
    using assms by (simp add: launchMenu_def Let_def)
  have t: "timers ?rt1 = timers rt @ [(100, ?menu)]"
    by (simp add: launchMenu_runtime l del: ui_step.simps)
  have d: "destroyedMenus ?rt1 = destroyedMenus rt"
    by (simp add: launchMenu_runtime del: ui_step.simps)
  have c: "ui_run ?rt1 (map (\<lambda>(w', c). ClickEvent w' c) clicks) = ?rt1"
    for clicks :: "('d world \<times> click) list"
    by (rule ui_run_clicks)
  have tm: "(100, ?menu) \<in> set (timers ?rt1)"
    by (simp only: t) simp
  have f: "?menu \<in> set (destroyedMenus (ui_run ?rt1 evs))"
    if "100 \<le> elapsed evs" for evs :: "'d ui_event list"
    using timer_fires [OF tm _ that] by simp
  from l t d c f show ?thesis by blast
qed

text \<open>The menu of the example world: destroyed after 100 ms without any click, and also
  when a click and a further context-menu event come first.\<close>

theorem teardown_by_timer_only_witness:
  "rootWebContents (windows ex_world) 7 = Some 3
   \<and> fromWebContents (windows ex_world) 3
       = Some \<lparr> bw_webContents = 3, bw_ownerId = js ''main'' \<rparr>
   \<and> timers (ui_step new_runtime (ContextMenuEvent ex_world 7 ex_params))
       = [(100, convertSectionsToTemplate (sections_of ex_world 7 ex_params))]
   \<and> destroyedMenus (ui_step new_runtime (ContextMenuEvent ex_world 7 ex_params)) = []
   \<and> convertSectionsToTemplate (sections_of ex_world 7 ex_params)
       \<in> set (destroyedMenus
                (ui_run (ui_step new_runtime (ContextMenuEvent ex_world 7 ex_params))
                   [Elapse 100 :: crx_menu ui_event]))
   \<and> convertSectionsToTemplate (sections_of ex_world 7 ex_params)
       \<in> set (destroyedMenus
                (ui_run (ui_step new_runtime (ContextMenuEvent ex_world 7 ex_params))
                   [ClickEvent ex_world (Reload 7), Elapse 60,
                    ContextMenuEvent ex_world 7 ex_params_full, Elapse 40]))"
proof -
  have r: "rootWebContents (windows ex_world) 7 = Some 3"
    by (simp add: ex_world_def ex_windows_def)
  have b: "fromWebContents (windows ex_world) 3
             = Some \<lparr> bw_webContents = 3, bw_ownerId = js ''main'' \<rparr>"
    by (simp add: ex_world_def ex_windows_def)
  have l: "launchMenu ex_world 7 ex_params
        = [MenuBuildFromTemplate (convertSectionsToTemplate (sections_of ex_world 7 ex_params)),
           MenuPopup (convertSectionsToTemplate (sections_of ex_world 7 ex_params))
             \<lparr> bw_webContents = 3, bw_ownerId = js ''main'' \<rparr>,
           SetTimeout (convertSectionsToTemplate (sections_of ex_world 7 ex_params)) 100]"
    using r b by (simp add: launchMenu_def Let_def)
  from teardown_by_timer_only [OF r b, of ex_params new_runtime]
  obtain menu where
      m: "launchMenu ex_world 7 ex_params
            = [MenuBuildFromTemplate menu,
               MenuPopup menu \<lparr> bw_webContents = 3, bw_ownerId = js ''main'' \<rparr>,
               SetTimeout menu 100]"
    and t: "timers (ui_step new_runtime (ContextMenuEvent ex_world 7 ex_params))
              = timers new_runtime @ [(100, menu)]"
    and d: "destroyedMenus (ui_step new_runtime (ContextMenuEvent ex_world 7 ex_params))
              = destroyedMenus new_runtime"
    and f: "\<forall>evs :: crx_menu ui_event list. 100 \<le> elapsed evs \<longrightarrow>
              menu \<in> set (destroyedMenus
                             (ui_run (ui_step new_runtime (ContextMenuEvent ex_world 7 ex_params))
                                evs))"
    by blast
  from l m have e: "menu = convertSectionsToTemplate (sections_of ex_world 7 ex_params)"
    by simp
  have e1: "100 \<le> elapsed [Elapse 100 :: crx_menu ui_event]"
    by simp
  have e2: "100 \<le> elapsed [ClickEvent ex_world (Reload 7), Elapse 60,
                             ContextMenuEvent ex_world 7 ex_params_full, Elapse 40]"
    by simp
  from f e1 have f1: "menu \<in> set (destroyedMenus
                (ui_run (ui_step new_runtime (ContextMenuEvent ex_world 7 ex_params))
                   [Elapse 100 :: crx_menu ui_event]))"
    by blast
  from f e2 have f2: "menu \<in> set (destroyedMenus
                (ui_run (ui_step new_runtime (ContextMenuEvent ex_world 7 ex_params))
                   [ClickEvent ex_world (Reload 7), Elapse 60,
                    ContextMenuEvent ex_world 7 ex_params_full, Elapse 40]))"
    by blast
  have t': "timers (ui_step new_runtime (ContextMenuEvent ex_world 7 ex_params))
              = [(100, convertSectionsToTemplate (sections_of ex_world 7 ex_params))]"
    using t e by (simp add: new_runtime_def)
  have d': "destroyedMenus (ui_step new_runtime (ContextMenuEvent ex_world 7 ex_params)) = []"
    using d by (simp add: new_runtime_def)
  from r b t' d' f1 f2 e show ?thesis
    by (simp only: simp_thms)
qed

text \<open>
  The claim as it is written fails on a click: \<open>Reload\<close> is a handler of the displayed
  menu; after it has run the menu is not destroyed, and the timer is still pending with its
  full delay, neither triggered nor superseded by the click.
\<close>

theorem click_does_not_tear_down_counterexample:
  "Some (Reload 7)
     \<in> set (map click (convertSectionsToTemplate (sections_of ex_world 7 ex_params)))
   \<and> convertSectionsToTemplate (sections_of ex_world 7 ex_params)
       \<notin> set (destroyedMenus
                (ui_run new_runtime
                   [ContextMenuEvent ex_world 7 ex_params, ClickEvent ex_world (Reload 7)]))
   \<and> timers (ui_run new_runtime
                [ContextMenuEvent ex_world 7 ex_params, ClickEvent ex_world (Reload 7)])
       = [(100, convertSectionsToTemplate (sections_of ex_world 7 ex_params))]"
proof -
  have r: "rootWebContents (windows ex_world) 7 = Some 3"
    by (simp add: ex_world_def ex_windows_def)
  have b: "fromWebContents (windows ex_world) 3
             = Some \<lparr> bw_webContents = 3, bw_ownerId = js ''main'' \<rparr>"
    by (simp add: ex_world_def ex_windows_def)
  have "Some (Reload 7)
          \<in> set (map click (convertSectionsToTemplate (sections_of ex_world 7 ex_params)))"
    by (simp add: convert_is_join sections_of_def renderPageNavigationSection_def
          renderPageExternalSection_def renderWaveboxSection_def)
  moreover have "ui_run new_runtime
                   [ContextMenuEvent ex_world 7 ex_params, ClickEvent ex_world (Reload 7)]
    = \<lparr> timers = [(100, convertSectionsToTemplate (sections_of ex_world 7 ex_params))],
        shownMenus = [convertSectionsToTemplate (sections_of ex_world 7 ex_params)],
        destroyedMenus = [] \<rparr>"
    using r b by (simp add: ui_run_def launchMenu_def new_runtime_def apply_effect_def Let_def)
  ultimately show ?thesis by simp
qed

end
